theory Spec2Isabelle
  imports Main "HOL-Library.Sublist"
begin

section \<open>Government scheme finder: query builder, search aggregator, endpoint\<close>

text \<open>
  The development follows \<^verbatim>\<open>government/government.py\<close> and
  \<^verbatim>\<open>government/main.py\<close>. Python strings are modelled as \<open>string\<close>,
  the provider's result rows (Python dicts with string keys) as maps from keys to
  values, the insertion-ordered dict \<^verbatim>\<open>aggregated\<close> as an association list that
  only ever grows at its end, and an exception raised by the search provider as the
  left summand of a sum type.
\<close>

subsection \<open>Data model\<close>

text \<open>\<^verbatim>\<open>class UserProfile(BaseModel)\<close> of \<^verbatim>\<open>main.py\<close>.\<close>

record UserProfile =
  age :: int
  gender :: string
  state :: string
  income_bracket :: string
  occupation :: string
  category :: string

text \<open>
  A provider row is a dict; the code reads the keys \<^verbatim>\<open>"href"\<close>, \<^verbatim>\<open>"title"\<close>
  and \<^verbatim>\<open>"body"\<close> with \<^verbatim>\<open>r.get(key, "")\<close>, so a key may be absent.
\<close>

type_synonym row = "string \<rightharpoonup> string"

text \<open>The dict literal stored per URL, with its four keys.\<close>

record SchemeResult =
  title :: string
  url :: string
  snippet :: string
  source_query :: string

text \<open>The insertion-ordered dict \<^verbatim>\<open>aggregated\<close>: keys in order of insertion.\<close>

type_synonym aggregated = "(string \<times> SchemeResult) list"

text \<open>An exception raised by the search provider, with its message.\<close>

datatype provider_error = ProviderError string

text \<open>
  The search provider \<^verbatim>\<open>ddgs.text(query, max_results=n)\<close> is an external
  collaborator: it either raises or returns the rows, and what it answers may depend on
  the calls made before (rate limiting), so it is a function of an explicit provider
  state \<open>'s\<close> as well, which it returns updated.
\<close>

type_synonym 's provider = "'s \<Rightarrow> string \<Rightarrow> nat \<Rightarrow> (provider_error + row list) \<times> 's"

text \<open>The envelope returned by the endpoint.\<close>

record Envelope =
  query_state :: string
  count :: int
  schemes :: "SchemeResult list"
  disclaimer :: string

subsection \<open>government.py\<close>

definition ALLOWED_DOMAINS :: "string list" where
  "ALLOWED_DOMAINS =
     [''gov.in'',
      ''kerala.gov.in'',
      ''scholarships.gov.in'',
      ''mygov.in'',
      ''india.gov.in'',
      ''cdc.kerala.gov.in'',
      ''dcescholarship.kerala.gov.in'']"

definition build_queries :: "UserProfile \<Rightarrow> string list" where
  "build_queries user =
     [state user @ '' student scholarship government'',
      state user @ '' '' @ category user @ '' scholarship government'',
      ''Central sector scholarship income government'',
      state user @ '' higher education scholarship official'']"

text \<open>Python's \<^verbatim>\<open>s.startswith(d)\<close> and \<^verbatim>\<open>d in s\<close> on strings.\<close>

fun startswith :: "string \<Rightarrow> string \<Rightarrow> bool" where
  "startswith [] s = True"
| "startswith (c # d) [] = False"
| "startswith (c # d) (c' # s) = (c = c' \<and> startswith d s)"

fun str_in :: "string \<Rightarrow> string \<Rightarrow> bool" where
  "str_in d [] = (d = [])"
| "str_in d (c # s) = (startswith d (c # s) \<or> str_in d s)"

text \<open>\<^verbatim>\<open>r.get(key, default)\<close>.\<close>

definition dict_get :: "row \<Rightarrow> string \<Rightarrow> string \<Rightarrow> string" where
  "dict_get r k d = (case r k of None \<Rightarrow> d | Some v \<Rightarrow> v)"

text \<open>\<^verbatim>\<open>any(domain in url for domain in ALLOWED_DOMAINS)\<close>.\<close>

definition allowed :: "string \<Rightarrow> bool" where
  "allowed u = list_ex (\<lambda>domain. str_in domain u) ALLOWED_DOMAINS"

text \<open>The dict literal built for a row under a query.\<close>

definition mk_result :: "string \<Rightarrow> row \<Rightarrow> SchemeResult" where
  "mk_result query r =
     \<lparr>title = dict_get r ''title'' '''',
      url = dict_get r ''href'' '''',
      snippet = dict_get r ''body'' '''',
      source_query = query\<rparr>"

text \<open>
  The body of the inner loop, for one row \<open>r\<close> of the answer to \<open>query\<close>: the two
  \<^verbatim>\<open>continue\<close> guards, then the insertion under \<^verbatim>\<open>if url not in aggregated\<close>.
\<close>

definition process_row :: "string \<Rightarrow> aggregated \<Rightarrow> row \<Rightarrow> aggregated" where
  "process_row query agg r =
     (let u = dict_get r ''href'' '''' in
      if u = [] then agg
      else if \<not> allowed u then agg
      else if u \<notin> set (map fst agg) then agg @ [(u, mk_result query r)]
      else agg)"

text \<open>The inner loop \<^verbatim>\<open>for r in ddgs.text(...)\<close>.\<close>

fun process_rows :: "string \<Rightarrow> aggregated \<Rightarrow> row list \<Rightarrow> aggregated" where
  "process_rows query agg [] = agg"
| "process_rows query agg (r # rs) = process_rows query (process_row query agg r) rs"

text \<open>
  The outer loop \<^verbatim>\<open>for query in queries\<close>. An exception of the provider leaves
  the loop at once: \<^verbatim>\<open>aggregated\<close> is a local variable and is lost.
\<close>

fun run_queries ::
  "'s provider \<Rightarrow> nat \<Rightarrow> 's \<Rightarrow> aggregated \<Rightarrow> string list \<Rightarrow> (provider_error + aggregated) \<times> 's"
where
  "run_queries text m s agg [] = (Inr agg, s)"
| "run_queries text m s agg (query # queries) =
     (case text s query m of
        (Inl e, s') \<Rightarrow> (Inl e, s')
      | (Inr rows, s') \<Rightarrow> run_queries text m s' (process_rows query agg rows) queries)"

text \<open>
  \<^verbatim>\<open>duckduckgo_scheme_search(user, max_results_per_query)\<close>; the result is
  \<^verbatim>\<open>list(aggregated.values())\<close>, the values in insertion order. The function has
  no \<^verbatim>\<open>try\<close>: the block \<^verbatim>\<open>with DDGS() as ddgs\<close> closes the provider's session
  and lets an exception through, so an exception of the provider is the result of the
  call.
\<close>

definition duckduckgo_scheme_search ::
  "'s provider \<Rightarrow> UserProfile \<Rightarrow> nat \<Rightarrow> 's \<Rightarrow> (provider_error + SchemeResult list) \<times> 's"
where
  "duckduckgo_scheme_search text user max_results_per_query s =
     (case run_queries text max_results_per_query s [] (build_queries user) of
        (Inl e, s') \<Rightarrow> (Inl e, s')
      | (Inr agg, s') \<Rightarrow> (Inr (map snd agg), s'))"

subsection \<open>main.py\<close>

text \<open>
  The endpoint calls the aggregator with the default
  \<^verbatim>\<open>max_results_per_query=10\<close> and wraps its list.
\<close>

definition find_schemes ::
  "'s provider \<Rightarrow> UserProfile \<Rightarrow> 's \<Rightarrow> (provider_error + Envelope) \<times> 's"
where
  "find_schemes text user s =
     (case duckduckgo_scheme_search text user 10 s of
        (Inl e, s') \<Rightarrow> (Inl e, s')
      | (Inr found, s') \<Rightarrow>
          (Inr \<lparr>query_state = state user,
                count = int (length found),
                schemes = found,
                disclaimer =
                  ''Final eligibility is determined by the concerned government department.''\<rparr>,
           s'))"

subsection \<open>Vocabulary for stating the properties\<close>

text \<open>The value of the variable \<^verbatim>\<open>url\<close> for a row.\<close>

definition row_url :: "row \<Rightarrow> string" where
  "row_url r = dict_get r ''href'' ''''"

text \<open>A URL passes both \<^verbatim>\<open>continue\<close> guards.\<close>

definition kept :: "string \<Rightarrow> bool" where
  "kept u = (u \<noteq> [] \<and> allowed u)"

text \<open>
  What the provider answers during one run: the rows it returns for the queries, asked
  one after the other, each row paired with the query it answers, in the order of the
  two loops. The first exception ends the run.
\<close>

fun provider_rows ::
  "'s provider \<Rightarrow> nat \<Rightarrow> 's \<Rightarrow> string list \<Rightarrow> (provider_error + (string \<times> row) list) \<times> 's"
where
  "provider_rows text m s [] = (Inr [], s)"
| "provider_rows text m s (query # queries) =
     (case text s query m of
        (Inl e, s') \<Rightarrow> (Inl e, s')
      | (Inr rows, s') \<Rightarrow>
          (case provider_rows text m s' queries of
             (Inl e, s'') \<Rightarrow> (Inl e, s'')
           | (Inr rest, s'') \<Rightarrow> (Inr (map (Pair query) rows @ rest), s'')))"

text \<open>One round of the inner loop's body on a row paired with its query.\<close>

definition step :: "aggregated \<Rightarrow> string \<times> row \<Rightarrow> aggregated" where
  "step agg p = process_row (fst p) agg (snd p)"

text \<open>
  Order of first appearance, as the specification words it: of the elements of a list
  that agree on \<open>f\<close>, only the first stays, and the order of the list is kept.
\<close>

fun first_by :: "('a \<Rightarrow> 'k) \<Rightarrow> 'a list \<Rightarrow> 'a list" where
  "first_by f [] = []"
| "first_by f (x # xs) = x # first_by f (filter (\<lambda>y. f y \<noteq> f x) xs)"

text \<open>The position at which a URL first appears among the rows of a run.\<close>

definition first_pos :: "string \<Rightarrow> (string \<times> row) list \<Rightarrow> nat" where
  "first_pos u tr = length (takeWhile (\<lambda>p. row_url (snd p) \<noteq> u) tr)"

text \<open>The entry that a row paired with its query gives, and the rows that give the output.\<close>

definition entry :: "string \<times> row \<Rightarrow> SchemeResult" where
  "entry p = mk_result (fst p) (snd p)"

definition first_rows :: "(string \<times> row) list \<Rightarrow> (string \<times> row) list" where
  "first_rows tr = first_by (\<lambda>p. row_url (snd p)) (filter (\<lambda>p. kept (row_url (snd p))) tr)"

text \<open>
  A row has a link when its \<open>href\<close> is present and not empty; a provider whose answers
  have lost the rows without a link.
\<close>

definition has_link :: "row \<Rightarrow> bool" where
  "has_link r = (r ''href'' \<noteq> None \<and> r ''href'' \<noteq> Some [])"

definition drop_urlless :: "'s provider \<Rightarrow> 's provider" where
  "drop_urlless text s query m =
     (case text s query m of
        (Inl e, s') \<Rightarrow> (Inl e, s')
      | (Inr rows, s') \<Rightarrow> (Inr (filter has_link rows), s'))"

subsection \<open>Stubbed providers\<close>

definition kerala_obc :: UserProfile where
  "kerala_obc =
     \<lparr>age = 20, gender = ''F'', state = ''Kerala'', income_bracket = ''low'',
      occupation = ''student'', category = ''OBC''\<rparr>"

text \<open>
  The stub of the end-to-end tests: the first two queries surface the same page under
  different titles; the second also returns a page outside the allow-list, a row with
  no link, and an allowed page with neither title nor body. The state counts the calls.
\<close>

definition stub_provider :: "nat provider" where
  "stub_provider n query m =
     (if query = ''Kerala student scholarship government'' then
        Inr [[''href'' \<mapsto> ''https://scholarships.gov.in/x'', ''title'' \<mapsto> ''A'',
              ''body'' \<mapsto> ''b'']]
      else if query = ''Kerala OBC scholarship government'' then
        Inr [[''href'' \<mapsto> ''https://scholarships.gov.in/x'', ''title'' \<mapsto> ''B'',
              ''body'' \<mapsto> ''c''],
             [''href'' \<mapsto> ''https://example.com/x'', ''title'' \<mapsto> ''E'', ''body'' \<mapsto> ''e''],
             [''title'' \<mapsto> ''no link''],
             [''href'' \<mapsto> ''https://kerala.gov.in/s'']]
      else Inr [],
      Suc n)"

text \<open>The rows of the stub's run for the profile above, each with its query.\<close>

definition stub_trace :: "(string \<times> row) list" where
  "stub_trace =
     [(''Kerala student scholarship government'',
        [''href'' \<mapsto> ''https://scholarships.gov.in/x'', ''title'' \<mapsto> ''A'', ''body'' \<mapsto> ''b'']),
      (''Kerala OBC scholarship government'',
        [''href'' \<mapsto> ''https://scholarships.gov.in/x'', ''title'' \<mapsto> ''B'', ''body'' \<mapsto> ''c'']),
      (''Kerala OBC scholarship government'',
        [''href'' \<mapsto> ''https://example.com/x'', ''title'' \<mapsto> ''E'', ''body'' \<mapsto> ''e'']),
      (''Kerala OBC scholarship government'', [''title'' \<mapsto> ''no link'']),
      (''Kerala OBC scholarship government'', [''href'' \<mapsto> ''https://kerala.gov.in/s''])]"

text \<open>A provider that answers two calls and raises on the third.\<close>

definition failing_provider :: "nat provider" where
  "failing_provider n query m =
     (if n = 2 then Inl (ProviderError ''rate limit'')
      else Inr [[''href'' \<mapsto> ''https://india.gov.in/a'', ''title'' \<mapsto> ''T'', ''body'' \<mapsto> ''t'']],
      Suc n)"

text \<open>A provider that returns a page of a host that only contains \<^verbatim>\<open>gov.in\<close>.\<close>

definition fake_provider :: "unit provider" where
  "fake_provider u query m =
     (Inr [[''href'' \<mapsto> ''https://fakegov.in.example.com/x'', ''title'' \<mapsto> ''F'',
            ''body'' \<mapsto> ''f'']], ())"

text \<open>A provider whose first answer repeats a page, the second time without title or body.\<close>

definition dup_provider :: "unit provider" where
  "dup_provider u query m =
     (if query = ''Kerala student scholarship government'' then
        Inr [[''href'' \<mapsto> ''https://scholarships.gov.in/x'', ''title'' \<mapsto> ''A'',
              ''body'' \<mapsto> ''b''],
             [''href'' \<mapsto> ''https://scholarships.gov.in/x'']]
      else Inr [],
      ())"

section \<open>Properties\<close>

subsection \<open>Strings\<close>

lemma startswith_prefix: "startswith d s = prefix d s"
  by (induction d s rule: startswith.induct) auto

lemma str_in_sublist: "str_in d s = sublist d s"
  by (induction s) (auto simp: startswith_prefix sublist_Cons_right)

lemma allowed_sublist: "allowed u = (\<exists>d \<in> set ALLOWED_DOMAINS. sublist d u)"
  by (simp add: allowed_def list_ex_iff str_in_sublist)

subsection \<open>The query builder\<close>

text \<open>
  C2. For a profile whose state and category are non-empty, \<open>build_queries\<close> returns
  exactly four strings, in the fixed order of the four templates, none of them empty,
  and the third is the constant \<^verbatim>\<open>Central sector scholarship income government\<close>.
\<close>

theorem build_queries_four:
  assumes "state user \<noteq> []" and "category user \<noteq> []"
  shows "length (build_queries user) = 4 \<and>
         (\<forall>q \<in> set (build_queries user). q \<noteq> []) \<and>
         build_queries user ! 2 = ''Central sector scholarship income government'' \<and>
         build_queries user =
           [state user @ '' student scholarship government'',
            state user @ '' '' @ category user @ '' scholarship government'',
            ''Central sector scholarship income government'',
            state user @ '' higher education scholarship official'']"
  by (simp add: build_queries_def)

theorem build_queries_four_witness:
  "state kerala_obc \<noteq> [] \<and> category kerala_obc \<noteq> [] \<and>
   length (build_queries kerala_obc) = 4 \<and>
   list_all (\<lambda>q. q \<noteq> []) (build_queries kerala_obc) \<and>
   build_queries kerala_obc ! 2 = ''Central sector scholarship income government'' \<and>
   build_queries kerala_obc =
     [''Kerala student scholarship government'',
      ''Kerala OBC scholarship government'',
      ''Central sector scholarship income government'',
      ''Kerala higher education scholarship official'']"
proof -
  have st: "state kerala_obc \<noteq> []" and ca: "category kerala_obc \<noteq> []"
    by (simp_all add: kerala_obc_def)
  show ?thesis
    using build_queries_four [OF st ca] st ca by (simp add: kerala_obc_def list_all_iff)
qed

subsection \<open>Order of first appearance\<close>

lemma set_first_by: "set (first_by f xs) \<subseteq> set xs"
  by (induction f xs rule: first_by.induct) auto

lemma image_first_by: "f ` set (first_by f xs) = f ` set xs"
  by (induction f xs rule: first_by.induct) auto

lemma distinct_first_by: "distinct (map f (first_by f xs))"
  using set_first_by by (induction f xs rule: first_by.induct) fastforce+

lemma subseq_first_by: "subseq (first_by f xs) xs"
  by (induction f xs rule: first_by.induct) (auto intro: subseq_order.trans)

lemma find_filter_weaken:
  "(\<And>y. P y \<Longrightarrow> Q y) \<Longrightarrow> find P (filter Q xs) = find P xs"
  by (induction xs) auto

lemma first_by_find:
  "x \<in> set (first_by f xs) \<longleftrightarrow> find (\<lambda>y. f y = f x) xs = Some x"
proof (induction f xs rule: first_by.induct)
  case (1 f)
  then show ?case by simp
next
  case (2 f a xs)
  show ?case
  proof (cases "f a = f x")
    case True
    have "x \<notin> set (first_by f (filter (\<lambda>y. f y \<noteq> f a) xs))"
      using set_first_by [of f "filter (\<lambda>y. f y \<noteq> f a) xs"] True by auto
    then show ?thesis using True by auto
  next
    case False
    have "find (\<lambda>y. f y = f x) (filter (\<lambda>y. f y \<noteq> f a) xs) = find (\<lambda>y. f y = f x) xs"
      using False by (intro find_filter_weaken) auto
    then show ?thesis using False 2 by auto
  qed
qed

text \<open>Positions of first appearance survive a filter that keeps both keys.\<close>

lemma takeWhile_filter_length:
  "(\<And>y. f y = k \<Longrightarrow> Q y) \<Longrightarrow>
   length (takeWhile (\<lambda>y. f y \<noteq> k) (filter Q xs)) =
   length (filter Q (takeWhile (\<lambda>y. f y \<noteq> k) xs))"
proof (induction xs)
  case Nil
  show ?case by simp
next
  case (Cons a xs)
  have ih: "length (takeWhile (\<lambda>y. f y \<noteq> k) (filter Q xs)) =
            length (filter Q (takeWhile (\<lambda>y. f y \<noteq> k) xs))"
    by (rule Cons.IH) (rule Cons.prems)
  show ?case
  proof (cases "f a = k")
    case True
    then have "Q a" by (rule Cons.prems)
    then show ?thesis using True by simp
  next
    case False
    then show ?thesis using ih by simp
  qed
qed

lemma filter_takeWhile_mono:
  assumes "length (takeWhile P xs) \<le> length (takeWhile P' xs)"
  shows "length (filter Q (takeWhile P xs)) \<le> length (filter Q (takeWhile P' xs))"
proof -
  define n where "n = length (takeWhile P xs)"
  define n' where "n' = length (takeWhile P' xs)"
  have a: "takeWhile P xs = take n xs" and b: "takeWhile P' xs = take n' xs"
    unfolding n_def n'_def by (rule takeWhile_eq_take)+
  have "take n' xs = take n xs @ take (n' - n) (drop n xs)"
    using assms by (metis n_def n'_def le_add_diff_inverse take_add)
  then show ?thesis by (simp add: a b)
qed

lemma first_pos_filter:
  assumes "\<And>y. f y = ka \<Longrightarrow> Q y" and "\<And>y. f y = kb \<Longrightarrow> Q y"
    and "length (takeWhile (\<lambda>y. f y \<noteq> ka) (filter Q xs)) <
         length (takeWhile (\<lambda>y. f y \<noteq> kb) (filter Q xs))"
  shows "length (takeWhile (\<lambda>y. f y \<noteq> ka) xs) < length (takeWhile (\<lambda>y. f y \<noteq> kb) xs)"
proof (rule ccontr)
  assume "\<not> ?thesis"
  then have "length (takeWhile (\<lambda>y. f y \<noteq> kb) xs) \<le> length (takeWhile (\<lambda>y. f y \<noteq> ka) xs)"
    by simp
  from filter_takeWhile_mono [OF this, of Q] assms show False
    by (simp add: takeWhile_filter_length)
qed

lemma first_by_increasing:
  "sorted_wrt (<) (map (\<lambda>a. length (takeWhile (\<lambda>y. f y \<noteq> f a) xs)) (first_by f xs))"
proof (induction f xs rule: first_by.induct)
  case (1 f)
  then show ?case by simp
next
  case (2 f x xs)
  define Q where "Q = (\<lambda>y. f y \<noteq> f x)"
  define zs where "zs = first_by f (filter Q xs)"
  define h where "h = (\<lambda>a. length (takeWhile (\<lambda>y. f y \<noteq> f a) xs))"
  define h' where "h' = (\<lambda>a. length (takeWhile (\<lambda>y. f y \<noteq> f a) (filter Q xs)))"
  define g where "g = (\<lambda>a. length (takeWhile (\<lambda>y. f y \<noteq> f a) (x # xs)))"
  have keys: "f x \<noteq> f a" if "a \<in> set zs" for a
  proof -
    from that have "a \<in> set (filter Q xs)"
      using set_first_by [of f "filter Q xs"] unfolding zs_def by blast
    then show ?thesis by (auto simp: Q_def)
  qed
  have gx: "g x = 0"
    by (simp add: g_def)
  have ga: "g a = Suc (h a)" if "a \<in> set zs" for a
    using keys [OF that] by (simp add: g_def h_def)
  have "sorted_wrt (<) (map h' zs)"
    using "2.IH" unfolding Q_def zs_def h'_def .
  then have ih: "sorted_wrt (\<lambda>a b. h' a < h' b) zs"
    by (simp only: sorted_wrt_map)
  have up: "h a < h b" if "a \<in> set zs" and "b \<in> set zs" and "h' a < h' b" for a b
  proof -
    have qa: "\<And>y. f y = f a \<Longrightarrow> Q y" and qb: "\<And>y. f y = f b \<Longrightarrow> Q y"
      using keys [OF that(1)] keys [OF that(2)] by (simp_all add: Q_def)
    show ?thesis
      using first_pos_filter [of f "f a" Q "f b" xs, OF qa qb] that(3)
      unfolding h_def h'_def by blast
  qed
  have "sorted_wrt (\<lambda>a b. h a < h b) zs"
    by (rule sorted_wrt_mono_rel [OF _ ih]) (rule up)
  then have "sorted_wrt (\<lambda>a b. g a < g b) zs"
    by (rule sorted_wrt_mono_rel [rotated]) (simp add: ga)
  moreover have "\<forall>a \<in> set zs. g x < g a"
    by (simp add: gx ga)
  ultimately have "sorted_wrt (\<lambda>a b. g a < g b) (x # zs)"
    by simp
  then have "sorted_wrt (<) (map g (x # zs))"
    by (simp only: sorted_wrt_map)
  then show ?case
    unfolding g_def zs_def Q_def by simp
qed

subsection \<open>The two loops\<close>

lemma process_rows_foldl: "process_rows q agg rs = foldl step agg (map (Pair q) rs)"
  by (induction rs arbitrary: agg) (simp_all add: step_def)

lemma run_queries_rows:
  "run_queries text m s agg qs =
     (case provider_rows text m s qs of
        (Inl e, s') \<Rightarrow> (Inl e, s')
      | (Inr tr, s') \<Rightarrow> (Inr (foldl step agg tr), s'))"
  by (induction qs arbitrary: s agg) (auto simp: process_rows_foldl split: prod.splits sum.splits)

lemma step_cases:
  "step agg p =
     (if kept (row_url (snd p)) \<and> row_url (snd p) \<notin> fst ` set agg
      then agg @ [(row_url (snd p), entry p)] else agg)"
  by (simp add: step_def process_row_def kept_def row_url_def entry_def Let_def)

lemma foldl_step:
  "foldl step agg tr =
     agg @ map (\<lambda>p. (row_url (snd p), entry p))
             (first_by (\<lambda>p. row_url (snd p))
                (filter (\<lambda>p. kept (row_url (snd p)) \<and> row_url (snd p) \<notin> fst ` set agg) tr))"
proof (induction tr arbitrary: agg)
  case Nil
  then show ?case by simp
next
  case (Cons p tr)
  show ?case
  proof (cases "kept (row_url (snd p)) \<and> row_url (snd p) \<notin> fst ` set agg")
    case True
    have "filter (\<lambda>y. row_url (snd y) \<noteq> row_url (snd p))
            (filter (\<lambda>p. kept (row_url (snd p)) \<and> row_url (snd p) \<notin> fst ` set agg) tr)
          = filter (\<lambda>q. kept (row_url (snd q)) \<and>
               row_url (snd q) \<notin> fst ` set (agg @ [(row_url (snd p), entry p)])) tr"
      by (auto intro: filter_cong)
    then show ?thesis using True Cons [of "agg @ [(row_url (snd p), entry p)]"]
      by (simp add: step_cases)
  next
    case False
    then show ?thesis using Cons [of agg] by (auto simp add: step_cases)
  qed
qed

text \<open>
  The run as a whole: when the provider answers every query, the output is the entries
  of the rows that pass the guards, one per URL, in order of first appearance; when the
  provider raises, so does the run.
\<close>

lemma search_rows:
  assumes "provider_rows text m s (build_queries user) = (Inr tr, s')"
  shows "duckduckgo_scheme_search text user m s = (Inr (map entry (first_rows tr)), s')"
  using assms
  by (simp add: duckduckgo_scheme_search_def run_queries_rows foldl_step first_rows_def comp_def)

lemma search_error:
  assumes "provider_rows text m s (build_queries user) = (Inl e, s')"
  shows "duckduckgo_scheme_search text user m s = (Inl e, s')"
  using assms by (simp add: duckduckgo_scheme_search_def run_queries_rows)

lemma search_Inr_rows:
  assumes "duckduckgo_scheme_search text user m s = (Inr out, s')"
  shows "\<exists>tr. provider_rows text m s (build_queries user) = (Inr tr, s')"
  using assms
  by (auto simp: duckduckgo_scheme_search_def run_queries_rows split: prod.splits sum.splits)

lemma search_Inl_rows:
  assumes "duckduckgo_scheme_search text user m s = (Inl e, s')"
  shows "provider_rows text m s (build_queries user) = (Inl e, s')"
  using assms
  by (auto simp: duckduckgo_scheme_search_def run_queries_rows split: prod.splits sum.splits)

text \<open>The rows of a run are the answers to the queries, laid end to end in query order.\<close>

lemma provider_rows_shape:
  assumes "provider_rows text m s qs = (Inr tr, s')"
  shows "\<exists>answers. length answers = length qs \<and>
           tr = concat (map (\<lambda>(q, rows). map (Pair q) rows) (zip qs answers))"
  using assms
proof (induction qs arbitrary: s tr)
  case Nil
  then show ?case by simp
next
  case (Cons q qs)
  from Cons.prems obtain rows s1 rest where
    a: "text s q m = (Inr rows, s1)" and b: "provider_rows text m s1 qs = (Inr rest, s')"
    and c: "tr = map (Pair q) rows @ rest"
    by (auto split: prod.splits sum.splits)
  from Cons.IH [OF b] obtain answers where
    "length answers = length qs" and
    "rest = concat (map (\<lambda>(q, rows). map (Pair q) rows) (zip qs answers))"
    by blast
  then have "length (rows # answers) = length (q # qs) \<and>
             tr = concat (map (\<lambda>(q, rows). map (Pair q) rows) (zip (q # qs) (rows # answers)))"
    using c by simp
  then show ?case by blast
qed

text \<open>Facts about the rows that give the output.\<close>

lemma first_rows_kept: "p \<in> set (first_rows tr) \<Longrightarrow> kept (row_url (snd p))"
  using set_first_by [of "\<lambda>p. row_url (snd p)" "filter (\<lambda>p. kept (row_url (snd p))) tr"]
  by (auto simp: first_rows_def)

lemma first_rows_find:
  "p \<in> set (first_rows tr) \<longleftrightarrow>
     kept (row_url (snd p)) \<and> find (\<lambda>y. row_url (snd y) = row_url (snd p)) tr = Some p"
proof (cases "kept (row_url (snd p))")
  case True
  have "find (\<lambda>y. row_url (snd y) = row_url (snd p)) (filter (\<lambda>p. kept (row_url (snd p))) tr)
        = find (\<lambda>y. row_url (snd y) = row_url (snd p)) tr"
    using True by (intro find_filter_weaken) simp
  then show ?thesis
    using True by (simp add: first_rows_def first_by_find)
next
  case False
  then show ?thesis using first_rows_kept by blast
qed

lemma url_entry: "url (entry p) = row_url (snd p)"
  by (simp add: entry_def mk_result_def row_url_def)

lemma distinct_first_rows: "distinct (map (\<lambda>p. row_url (snd p)) (first_rows tr))"
  by (simp add: first_rows_def distinct_first_by)

lemma urls_first_rows:
  "set (map (\<lambda>p. row_url (snd p)) (first_rows tr)) =
     {u \<in> set (map (\<lambda>p. row_url (snd p)) tr). kept u}"
  using image_first_by [of "\<lambda>p. row_url (snd p)" "filter (\<lambda>p. kept (row_url (snd p))) tr"]
  by (auto simp: first_rows_def)

subsection \<open>The stubbed runs, evaluated\<close>

lemma kerala_obc_queries:
  "build_queries kerala_obc =
     [''Kerala student scholarship government'',
      ''Kerala OBC scholarship government'',
      ''Central sector scholarship income government'',
      ''Kerala higher education scholarship official'']"
  by (simp add: build_queries_def kerala_obc_def)

lemma stub_rows:
  "provider_rows stub_provider 10 0 (build_queries kerala_obc) =
     (Inr stub_trace, 4)"
  by (simp add: kerala_obc_queries stub_provider_def stub_trace_def)

lemma stub_run:
  "duckduckgo_scheme_search stub_provider kerala_obc 10 0 =
     (Inr [\<lparr>title = ''A'', url = ''https://scholarships.gov.in/x'', snippet = ''b'',
             source_query = ''Kerala student scholarship government''\<rparr>,
           \<lparr>title = [], url = ''https://kerala.gov.in/s'', snippet = [],
             source_query = ''Kerala OBC scholarship government''\<rparr>],
      4)"
  by (simp add: duckduckgo_scheme_search_def kerala_obc_queries stub_provider_def
      process_row_def dict_get_def allowed_def ALLOWED_DOMAINS_def mk_result_def Let_def)

lemma dup_rows:
  "provider_rows dup_provider 10 () (build_queries kerala_obc) =
     (Inr [(''Kerala student scholarship government'',
             [''href'' \<mapsto> ''https://scholarships.gov.in/x'', ''title'' \<mapsto> ''A'',
              ''body'' \<mapsto> ''b'']),
           (''Kerala student scholarship government'',
             [''href'' \<mapsto> ''https://scholarships.gov.in/x''])],
      ())"
  by (simp add: kerala_obc_queries dup_provider_def)

lemma dup_run:
  "duckduckgo_scheme_search dup_provider kerala_obc 10 () =
     (Inr [\<lparr>title = ''A'', url = ''https://scholarships.gov.in/x'', snippet = ''b'',
             source_query = ''Kerala student scholarship government''\<rparr>],
      ())"
  by (simp add: duckduckgo_scheme_search_def kerala_obc_queries dup_provider_def
      process_row_def dict_get_def allowed_def ALLOWED_DOMAINS_def mk_result_def Let_def)

lemma fake_run:
  "duckduckgo_scheme_search fake_provider kerala_obc 10 () =
     (Inr [\<lparr>title = ''F'', url = ''https://fakegov.in.example.com/x'', snippet = ''f'',
             source_query = ''Kerala student scholarship government''\<rparr>],
      ())"
  by (simp add: duckduckgo_scheme_search_def kerala_obc_queries fake_provider_def
      process_row_def dict_get_def allowed_def ALLOWED_DOMAINS_def mk_result_def Let_def)

lemma failing_run:
  "duckduckgo_scheme_search failing_provider kerala_obc 10 0 =
     (Inl (ProviderError ''rate limit''), 3)"
  by (simp add: duckduckgo_scheme_search_def kerala_obc_queries failing_provider_def)

text \<open>The substring test compares characters as they are: upper case does not match.\<close>

lemma allowed_case_sensitive:
  "allowed ''https://kerala.gov.in/s'' \<and> \<not> allowed ''https://KERALA.GOV.IN/s''"
  by (simp add: allowed_def ALLOWED_DOMAINS_def)

subsection \<open>The endpoint\<close>

text \<open>
  C8. The endpoint succeeds exactly when the aggregator does, and then returns the
  envelope whose \<open>query_state\<close> is the profile's state, whose \<open>schemes\<close> is the
  aggregator's list, whose \<open>count\<close> is the length of that list and whose
  \<open>disclaimer\<close> is the fixed sentence.
\<close>

theorem find_schemes_envelope:
  "find_schemes text user s = (Inr env, s') \<longleftrightarrow>
     (\<exists>out. duckduckgo_scheme_search text user 10 s = (Inr out, s') \<and>
        env = \<lparr>query_state = state user,
               count = int (length out),
               schemes = out,
               disclaimer =
                 ''Final eligibility is determined by the concerned government department.''\<rparr>)"
  by (auto simp: find_schemes_def split: prod.splits sum.splits)

theorem find_schemes_envelope_witness:
  "find_schemes stub_provider kerala_obc 0 =
     (Inr \<lparr>query_state = ''Kerala'',
           count = 2,
           schemes =
             [\<lparr>title = ''A'', url = ''https://scholarships.gov.in/x'', snippet = ''b'',
                source_query = ''Kerala student scholarship government''\<rparr>,
              \<lparr>title = [], url = ''https://kerala.gov.in/s'', snippet = [],
                source_query = ''Kerala OBC scholarship government''\<rparr>],
           disclaimer =
             ''Final eligibility is determined by the concerned government department.''\<rparr>,
      4)"
  using find_schemes_envelope [of stub_provider kerala_obc 0 _ 4] stub_run
  by (simp add: kerala_obc_def)

subsection \<open>Provider errors\<close>

text \<open>
  C7. Whichever of the four queries the provider raises on, after answering the ones
  before it, the aggregator returns that error and no list: nothing accumulated from
  the earlier answers comes back.
\<close>

theorem provider_error_propagates:
  assumes "build_queries user = [q1, q2, q3, q4]"
  shows
    "(text s q1 m = (Inl e, s1) \<longrightarrow>
        duckduckgo_scheme_search text user m s = (Inl e, s1)) \<and>
     (text s q1 m = (Inr rows1, s1) \<and> text s1 q2 m = (Inl e, s2) \<longrightarrow>
        duckduckgo_scheme_search text user m s = (Inl e, s2)) \<and>
     (text s q1 m = (Inr rows1, s1) \<and> text s1 q2 m = (Inr rows2, s2) \<and>
      text s2 q3 m = (Inl e, s3) \<longrightarrow>
        duckduckgo_scheme_search text user m s = (Inl e, s3)) \<and>
     (text s q1 m = (Inr rows1, s1) \<and> text s1 q2 m = (Inr rows2, s2) \<and>
      text s2 q3 m = (Inr rows3, s3) \<and> text s3 q4 m = (Inl e, s4) \<longrightarrow>
        duckduckgo_scheme_search text user m s = (Inl e, s4))"
  by (simp add: duckduckgo_scheme_search_def assms)

theorem provider_error_propagates_witness:
  "build_queries kerala_obc =
     [''Kerala student scholarship government'',
      ''Kerala OBC scholarship government'',
      ''Central sector scholarship income government'',
      ''Kerala higher education scholarship official''] \<and>
   failing_provider 0 ''Kerala student scholarship government'' 10 =
     (Inr [[''href'' \<mapsto> ''https://india.gov.in/a'', ''title'' \<mapsto> ''T'', ''body'' \<mapsto> ''t'']], 1) \<and>
   failing_provider 1 ''Kerala OBC scholarship government'' 10 =
     (Inr [[''href'' \<mapsto> ''https://india.gov.in/a'', ''title'' \<mapsto> ''T'', ''body'' \<mapsto> ''t'']], 2) \<and>
   failing_provider 2 ''Central sector scholarship income government'' 10 =
     (Inl (ProviderError ''rate limit''), 3) \<and>
   duckduckgo_scheme_search failing_provider kerala_obc 10 0 =
     (Inl (ProviderError ''rate limit''), 3)"
proof -
  let ?rows = "[[''href'' \<mapsto> ''https://india.gov.in/a'', ''title'' \<mapsto> ''T'', ''body'' \<mapsto> ''t'']]"
  have a: "failing_provider 0 ''Kerala student scholarship government'' 10 = (Inr ?rows, 1)"
    and b: "failing_provider 1 ''Kerala OBC scholarship government'' 10 = (Inr ?rows, 2)"
    and c: "failing_provider 2 ''Central sector scholarship income government'' 10 =
              (Inl (ProviderError ''rate limit''), 3)"
    by (simp_all add: failing_provider_def)
  from provider_error_propagates [of kerala_obc _ _ _ _ failing_provider 0 10
      "ProviderError ''rate limit''" 1 ?rows 2 ?rows 3, OF kerala_obc_queries]
  have "duckduckgo_scheme_search failing_provider kerala_obc 10 0 =
          (Inl (ProviderError ''rate limit''), 3)"
    using a b c by blast
  with a b c kerala_obc_queries show ?thesis by blast
qed

text \<open>The same, for any list of queries: the first exception of the provider is the result.\<close>

lemma run_queries_error:
  "provider_rows text m s qs = (Inl e, s') \<Longrightarrow> run_queries text m s agg qs = (Inl e, s')"
  by (simp add: run_queries_rows)

subsection \<open>The allow-list\<close>

text \<open>
  C4. The URL of every entry of the output has one of the \<open>ALLOWED_DOMAINS\<close> as a
  substring, compared character by character; and a URL the provider returned that has
  none of them as a substring is the URL of no entry.
\<close>

theorem output_urls_allowed:
  assumes "duckduckgo_scheme_search text user m s = (Inr out, s')"
  shows "(\<forall>e \<in> set out. \<exists>d \<in> set ALLOWED_DOMAINS. sublist d (url e)) \<and>
         (\<exists>tr. provider_rows text m s (build_queries user) = (Inr tr, s') \<and>
            (\<forall>p \<in> set tr. (\<nexists>d. d \<in> set ALLOWED_DOMAINS \<and> sublist d (row_url (snd p))) \<longrightarrow>
               row_url (snd p) \<notin> url ` set out))"
proof -
  from search_Inr_rows [OF assms] obtain tr where
    tr: "provider_rows text m s (build_queries user) = (Inr tr, s')" by blast
  from search_rows [OF tr] assms have out: "out = map entry (first_rows tr)" by simp
  have ok: "\<exists>d \<in> set ALLOWED_DOMAINS. sublist d (url e)" if "e \<in> set out" for e
  proof -
    from that out obtain p where "p \<in> set (first_rows tr)" and "e = entry p" by auto
    then have "allowed (url e)"
      using first_rows_kept [of p tr] by (simp add: url_entry kept_def)
    then show ?thesis by (simp add: allowed_sublist)
  qed
  then have "\<forall>p \<in> set tr. (\<nexists>d. d \<in> set ALLOWED_DOMAINS \<and> sublist d (row_url (snd p))) \<longrightarrow>
               row_url (snd p) \<notin> url ` set out"
    by (metis imageE)
  with ok tr show ?thesis by blast
qed

theorem output_urls_allowed_witness:
  "duckduckgo_scheme_search stub_provider kerala_obc 10 0 =
     (Inr [\<lparr>title = ''A'', url = ''https://scholarships.gov.in/x'', snippet = ''b'',
             source_query = ''Kerala student scholarship government''\<rparr>,
           \<lparr>title = [], url = ''https://kerala.gov.in/s'', snippet = [],
             source_query = ''Kerala OBC scholarship government''\<rparr>],
      4) \<and>
   (\<exists>d \<in> set ALLOWED_DOMAINS. sublist d ''https://scholarships.gov.in/x'') \<and>
   (\<exists>d \<in> set ALLOWED_DOMAINS. sublist d ''https://kerala.gov.in/s'') \<and>
   (\<nexists>d. d \<in> set ALLOWED_DOMAINS \<and> sublist d ''https://example.com/x'')"
proof -
  have "\<not> allowed ''https://example.com/x''"
    by (simp add: allowed_def ALLOWED_DOMAINS_def)
  then have "\<nexists>d. d \<in> set ALLOWED_DOMAINS \<and> sublist d ''https://example.com/x''"
    by (auto simp: allowed_sublist)
  with output_urls_allowed [OF stub_run] stub_run show ?thesis by simp
qed

text \<open>
  C5. The test is for a substring, not for the end of the host: the page
  \<^verbatim>\<open>https://fakegov.in.example.com/x\<close>, whose host \<^verbatim>\<open>fakegov.in.example.com\<close>
  does not end in \<^verbatim>\<open>gov.in\<close>, contains \<^verbatim>\<open>gov.in\<close> and is in the output.
\<close>

theorem substring_not_host_suffix:
  "duckduckgo_scheme_search fake_provider kerala_obc 10 () =
     (Inr [\<lparr>title = ''F'', url = ''https://fakegov.in.example.com/x'', snippet = ''f'',
             source_query = ''Kerala student scholarship government''\<rparr>],
      ()) \<and>
   ''https://fakegov.in.example.com/x'' = ''https://'' @ ''fakegov.in.example.com'' @ ''/x'' \<and>
   sublist ''gov.in'' ''https://fakegov.in.example.com/x'' \<and>
   \<not> suffix ''gov.in'' ''fakegov.in.example.com''"
proof -
  have "str_in ''gov.in'' ''https://fakegov.in.example.com/x''"
    by simp
  then have "sublist ''gov.in'' ''https://fakegov.in.example.com/x''"
    by (simp only: str_in_sublist)
  moreover have "\<not> suffix ''gov.in'' ''fakegov.in.example.com''"
    by (simp add: suffix_to_prefix)
  ultimately show ?thesis
    using fake_run by simp
qed

subsection \<open>Deduplication by URL\<close>

lemma filter_key_distinct:
  "distinct (map f xs) \<Longrightarrow> x \<in> set xs \<Longrightarrow> filter (\<lambda>y. f y = f x) xs = [x]"
proof (induction xs)
  case Nil
  then show ?case by simp
next
  case (Cons a xs)
  show ?case
  proof (cases "x = a")
    case True
    have "f a \<notin> f ` set xs"
      using Cons.prems(1) by simp
    then have "\<forall>y \<in> set xs. f y \<noteq> f a"
      by (metis imageI)
    then have "filter (\<lambda>y. f y = f a) xs = []"
      by (simp add: filter_empty_conv)
    then show ?thesis using True by simp
  next
    case False
    then have "x \<in> set xs" using Cons.prems(2) by simp
    moreover have "f a \<noteq> f x"
      using Cons.prems(1) \<open>x \<in> set xs\<close> by auto
    ultimately show ?thesis using Cons by simp
  qed
qed

lemma find_holds: "find P xs = Some x \<Longrightarrow> P x"
  by (induction xs) (auto split: if_splits)

lemma urls_output: "map url (map entry ps) = map (\<lambda>p. row_url (snd p)) ps"
  by (simp add: url_entry)

text \<open>
  C1. The URLs of the returned list are pairwise different, there is one entry for each
  URL that passes the guards, and every entry is the one built from the first row of
  the run that carries its URL: the later rows with that URL leave no entry.
\<close>

theorem no_duplicate_urls:
  assumes "duckduckgo_scheme_search text user m s = (Inr out, s')"
  shows "distinct (map url out) \<and>
         (\<exists>tr. provider_rows text m s (build_queries user) = (Inr tr, s') \<and>
            length out = card {u \<in> set (map (\<lambda>p. row_url (snd p)) tr). kept u} \<and>
            (\<forall>e \<in> set out. \<exists>q r.
               find (\<lambda>p. row_url (snd p) = url e) tr = Some (q, r) \<and> e = mk_result q r))"
proof -
  from search_Inr_rows [OF assms] obtain tr where
    tr: "provider_rows text m s (build_queries user) = (Inr tr, s')" by blast
  from search_rows [OF tr] assms have out: "out = map entry (first_rows tr)" by simp
  have d: "distinct (map url out)"
    unfolding out urls_output by (rule distinct_first_rows)
  have "length out = length (map (\<lambda>p. row_url (snd p)) (first_rows tr))"
    by (simp add: out)
  also have "\<dots> = card (set (map (\<lambda>p. row_url (snd p)) (first_rows tr)))"
    using distinct_first_rows [of tr] by (simp only: distinct_card)
  finally have n: "length out = card {u \<in> set (map (\<lambda>p. row_url (snd p)) tr). kept u}"
    by (simp only: urls_first_rows)
  have f: "\<exists>q r. find (\<lambda>p. row_url (snd p) = url e) tr = Some (q, r) \<and> e = mk_result q r"
    if "e \<in> set out" for e
  proof -
    from that out obtain p where p: "p \<in> set (first_rows tr)" and e: "e = entry p" by auto
    from p have "find (\<lambda>y. row_url (snd y) = row_url (snd p)) tr = Some p"
      by (simp add: first_rows_find)
    then have "find (\<lambda>y. row_url (snd y) = url e) tr = Some (fst p, snd p)"
      by (simp add: e url_entry)
    moreover have "e = mk_result (fst p) (snd p)"
      by (simp add: e entry_def)
    ultimately show ?thesis by blast
  qed
  from d tr n f show ?thesis by blast
qed

theorem no_duplicate_urls_witness:
  "duckduckgo_scheme_search stub_provider kerala_obc 10 0 =
     (Inr [\<lparr>title = ''A'', url = ''https://scholarships.gov.in/x'', snippet = ''b'',
             source_query = ''Kerala student scholarship government''\<rparr>,
           \<lparr>title = [], url = ''https://kerala.gov.in/s'', snippet = [],
             source_query = ''Kerala OBC scholarship government''\<rparr>],
      4) \<and>
   distinct [''https://scholarships.gov.in/x'', ''https://kerala.gov.in/s'']"
  using no_duplicate_urls [OF stub_run] stub_run by simp

text \<open>
  C3. When a URL that passes the guards is returned more than once, under different
  queries or under the same one, the output has exactly one entry for it, and that
  entry has the query, the title and the snippet of the first row of the run that
  carries the URL; the rows of a run are in query order, so this is the earliest query.
\<close>

theorem first_query_wins:
  assumes "provider_rows text m s (build_queries user) = (Inr tr, s')"
    and "find (\<lambda>p. row_url (snd p) = u) tr = Some (q, r)"
    and "u \<noteq> []" and "allowed u"
  shows "\<exists>out. duckduckgo_scheme_search text user m s = (Inr out, s') \<and>
           filter (\<lambda>e. url e = u) out =
             [\<lparr>title = dict_get r ''title'' '''', url = u, snippet = dict_get r ''body'' '''',
               source_query = q\<rparr>]"
proof -
  from find_holds [OF assms(2)] have u: "row_url r = u"
    by simp
  have "(q, r) \<in> set (first_rows tr)"
    using assms(2-4) u by (simp add: first_rows_find kept_def)
  then have "filter (\<lambda>p. row_url (snd p) = row_url (snd (q, r))) (first_rows tr) = [(q, r)]"
    by (intro filter_key_distinct distinct_first_rows)
  then have "filter (\<lambda>e. url e = u) (map entry (first_rows tr)) = [entry (q, r)]"
    by (simp add: filter_map comp_def url_entry u)
  moreover have "entry (q, r) =
      \<lparr>title = dict_get r ''title'' '''', url = u, snippet = dict_get r ''body'' '''',
        source_query = q\<rparr>"
    using u by (simp add: entry_def mk_result_def row_url_def)
  ultimately show ?thesis
    using search_rows [OF assms(1)] by simp
qed

theorem first_query_wins_witness:
  "provider_rows stub_provider 10 0 (build_queries kerala_obc) = (Inr stub_trace, 4) \<and>
   find (\<lambda>p. row_url (snd p) = ''https://scholarships.gov.in/x'') stub_trace =
     Some (''Kerala student scholarship government'',
           [''href'' \<mapsto> ''https://scholarships.gov.in/x'', ''title'' \<mapsto> ''A'', ''body'' \<mapsto> ''b'']) \<and>
   ''https://scholarships.gov.in/x'' \<noteq> [] \<and>
   allowed ''https://scholarships.gov.in/x'' \<and>
   (\<exists>out. duckduckgo_scheme_search stub_provider kerala_obc 10 0 = (Inr out, 4) \<and>
      filter (\<lambda>e. url e = ''https://scholarships.gov.in/x'') out =
        [\<lparr>title = ''A'', url = ''https://scholarships.gov.in/x'', snippet = ''b'',
          source_query = ''Kerala student scholarship government''\<rparr>])"
proof -
  let ?u = "''https://scholarships.gov.in/x''"
  let ?q = "''Kerala student scholarship government''"
  let ?r = "[''href'' \<mapsto> ?u, ''title'' \<mapsto> ''A'', ''body'' \<mapsto> ''b'']"
  have a: "find (\<lambda>p. row_url (snd p) = ?u) stub_trace = Some (?q, ?r)"
    by (simp add: stub_trace_def row_url_def dict_get_def)
  have b: "?u \<noteq> []" by simp
  have c: "allowed ?u" by (simp add: allowed_def ALLOWED_DOMAINS_def)
  from first_query_wins [OF stub_rows a b c] stub_rows a b c show ?thesis
    by (simp add: dict_get_def)
qed

subsection \<open>Rows without a link\<close>

lemma process_row_urlless: "\<not> has_link r \<Longrightarrow> process_row query agg r = agg"
  by (auto simp: has_link_def process_row_def dict_get_def)

lemma process_rows_drop_urlless:
  "process_rows query agg (filter has_link rows) = process_rows query agg rows"
  by (induction rows arbitrary: agg) (simp_all add: process_row_urlless)

lemma run_queries_drop_urlless:
  "run_queries (drop_urlless text) m s agg qs = run_queries text m s agg qs"
  by (induction qs arbitrary: s agg)
    (auto simp: drop_urlless_def process_rows_drop_urlless split: prod.splits sum.splits)

lemma search_drop_urlless:
  "duckduckgo_scheme_search (drop_urlless text) user m s =
   duckduckgo_scheme_search text user m s"
  by (simp add: duckduckgo_scheme_search_def run_queries_drop_urlless)

text \<open>
  C6. When the provider answers every query, the run returns a list, whatever rows
  without a link (\<open>href\<close> absent or empty) the answers hold; no entry of the list has
  an empty URL, none is the entry of such a row, and the list is the one the run
  returns when these rows are taken out of the provider's answers.
\<close>

theorem urlless_rows_skipped:
  assumes "provider_rows text m s (build_queries user) = (Inr tr, s')"
  shows "\<exists>out. duckduckgo_scheme_search text user m s = (Inr out, s') \<and>
           duckduckgo_scheme_search (drop_urlless text) user m s = (Inr out, s') \<and>
           (\<forall>e \<in> set out. url e \<noteq> []) \<and>
           (\<forall>p \<in> set tr. \<not> has_link (snd p) \<longrightarrow> entry p \<notin> set out)"
proof -
  let ?out = "map entry (first_rows tr)"
  have run: "duckduckgo_scheme_search text user m s = (Inr ?out, s')"
    by (rule search_rows [OF assms])
  have nonempty: "url e \<noteq> []" if "e \<in> set ?out" for e
  proof -
    from that obtain p where "p \<in> set (first_rows tr)" and "e = entry p" by auto
    then show ?thesis
      using first_rows_kept [of p tr] by (simp add: url_entry kept_def)
  qed
  have "entry p \<notin> set ?out" if "\<not> has_link (snd p)" for p
  proof -
    from that have "url (entry p) = []"
      by (auto simp: has_link_def url_entry row_url_def dict_get_def)
    then show ?thesis using nonempty by blast
  qed
  with run nonempty show ?thesis
    by (simp only: search_drop_urlless) blast
qed

theorem urlless_rows_skipped_witness:
  "provider_rows stub_provider 10 0 (build_queries kerala_obc) =
     (Inr stub_trace, 4) \<and>
   \<not> has_link [''title'' \<mapsto> ''no link''] \<and>
   duckduckgo_scheme_search stub_provider kerala_obc 10 0 =
     (Inr [\<lparr>title = ''A'', url = ''https://scholarships.gov.in/x'', snippet = ''b'',
             source_query = ''Kerala student scholarship government''\<rparr>,
           \<lparr>title = [], url = ''https://kerala.gov.in/s'', snippet = [],
             source_query = ''Kerala OBC scholarship government''\<rparr>],
      4) \<and>
   duckduckgo_scheme_search (drop_urlless stub_provider) kerala_obc 10 0 =
     (Inr [\<lparr>title = ''A'', url = ''https://scholarships.gov.in/x'', snippet = ''b'',
             source_query = ''Kerala student scholarship government''\<rparr>,
           \<lparr>title = [], url = ''https://kerala.gov.in/s'', snippet = [],
             source_query = ''Kerala OBC scholarship government''\<rparr>],
      4)"
proof -
  have "\<not> has_link [''title'' \<mapsto> ''no link'']"
    by (simp add: has_link_def)
  with urlless_rows_skipped [OF stub_rows] stub_rows stub_run show ?thesis
    by auto
qed

subsection \<open>Insertion order\<close>

lemma first_rows_increasing:
  "sorted_wrt (<) (map (\<lambda>p. first_pos (row_url (snd p)) tr) (first_rows tr))"
proof -
  let ?key = "\<lambda>p :: string \<times> row. row_url (snd p)"
  let ?K = "\<lambda>p :: string \<times> row. kept (row_url (snd p))"
  let ?h' = "\<lambda>a. length (takeWhile (\<lambda>y. ?key y \<noteq> ?key a) (filter ?K tr))"
  let ?h = "\<lambda>a. length (takeWhile (\<lambda>y. ?key y \<noteq> ?key a) tr)"
  have "sorted_wrt (<) (map ?h' (first_rows tr))"
    unfolding first_rows_def by (rule first_by_increasing)
  then have ih: "sorted_wrt (\<lambda>a b. ?h' a < ?h' b) (first_rows tr)"
    by (simp only: sorted_wrt_map)
  have up: "?h a < ?h b"
    if "a \<in> set (first_rows tr)" and "b \<in> set (first_rows tr)" and "?h' a < ?h' b" for a b
  proof -
    have qa: "\<And>y. ?key y = ?key a \<Longrightarrow> ?K y" and qb: "\<And>y. ?key y = ?key b \<Longrightarrow> ?K y"
      using first_rows_kept [OF that(1)] first_rows_kept [OF that(2)] by simp_all
    show ?thesis
      using first_pos_filter [of ?key "?key a" ?K "?key b" tr, OF qa qb] that(3) by blast
  qed
  have "sorted_wrt (\<lambda>a b. ?h a < ?h b) (first_rows tr)"
    by (rule sorted_wrt_mono_rel [OF _ ih]) (rule up)
  then show ?thesis
    by (simp only: sorted_wrt_map first_pos_def)
qed

text \<open>
  C9. The returned list is in insertion order. Its URLs are the URLs of the run that
  pass the guards; the list is the entries of the rows that first carry these URLs, in
  the order of the run (the four queries in the builder's order, and the provider's
  order within each answer); so an entry stands before another exactly as its URL
  first appears before the other's.
\<close>

theorem insertion_order:
  assumes "provider_rows text m s (build_queries user) = (Inr tr, s')"
  shows "\<exists>out. duckduckgo_scheme_search text user m s = (Inr out, s') \<and>
           out = map entry (first_rows tr) \<and>
           set (map url out) = {u \<in> set (map (\<lambda>p. row_url (snd p)) tr). kept u} \<and>
           (\<forall>i j. i < j \<and> j < length out \<longrightarrow>
              first_pos (url (out ! i)) tr < first_pos (url (out ! j)) tr)"
proof -
  let ?out = "map entry (first_rows tr)"
  have run: "duckduckgo_scheme_search text user m s = (Inr ?out, s')"
    by (rule search_rows [OF assms])
  have urls: "set (map url ?out) = {u \<in> set (map (\<lambda>p. row_url (snd p)) tr). kept u}"
    by (simp only: urls_output urls_first_rows)
  have "sorted_wrt (<) (map (\<lambda>e. first_pos (url e) tr) ?out)"
    using first_rows_increasing [of tr] by (simp add: comp_def url_entry)
  then have sorted: "sorted_wrt (\<lambda>a b. first_pos (url a) tr < first_pos (url b) tr) ?out"
    by (simp only: sorted_wrt_map)
  have ord: "\<forall>i j. i < j \<and> j < length ?out \<longrightarrow>
               first_pos (url (?out ! i)) tr < first_pos (url (?out ! j)) tr"
  proof (intro allI impI)
    fix i j
    assume "i < j \<and> j < length ?out"
    then have "i < j" and "j < length ?out" by simp_all
    then show "first_pos (url (?out ! i)) tr < first_pos (url (?out ! j)) tr"
      by (rule sorted_wrt_nth_less [OF sorted])
  qed
  show ?thesis
  proof (intro exI conjI)
    show "duckduckgo_scheme_search text user m s = (Inr ?out, s')" by (rule run)
    show "?out = map entry (first_rows tr)" by (rule refl)
    show "set (map url ?out) = {u \<in> set (map (\<lambda>p. row_url (snd p)) tr). kept u}"
      by (rule urls)
    show "\<forall>i j. i < j \<and> j < length ?out \<longrightarrow>
            first_pos (url (?out ! i)) tr < first_pos (url (?out ! j)) tr"
      by (rule ord)
  qed
qed

theorem insertion_order_witness:
  "provider_rows stub_provider 10 0 (build_queries kerala_obc) = (Inr stub_trace, 4) \<and>
   duckduckgo_scheme_search stub_provider kerala_obc 10 0 =
     (Inr [\<lparr>title = ''A'', url = ''https://scholarships.gov.in/x'', snippet = ''b'',
             source_query = ''Kerala student scholarship government''\<rparr>,
           \<lparr>title = [], url = ''https://kerala.gov.in/s'', snippet = [],
             source_query = ''Kerala OBC scholarship government''\<rparr>],
      4) \<and>
   first_pos ''https://scholarships.gov.in/x'' stub_trace = 0 \<and>
   first_pos ''https://kerala.gov.in/s'' stub_trace = 4 \<and>
   first_pos ''https://scholarships.gov.in/x'' stub_trace <
     first_pos ''https://kerala.gov.in/s'' stub_trace"
proof -
  from insertion_order [OF stub_rows] obtain out where
    run: "duckduckgo_scheme_search stub_provider kerala_obc 10 0 = (Inr out, 4)"
    and ord: "\<forall>i j. i < j \<and> j < length out \<longrightarrow>
       first_pos (url (out ! i)) stub_trace < first_pos (url (out ! j)) stub_trace"
    by blast
  from run stub_run have out: "out =
     [\<lparr>title = ''A'', url = ''https://scholarships.gov.in/x'', snippet = ''b'',
        source_query = ''Kerala student scholarship government''\<rparr>,
      \<lparr>title = [], url = ''https://kerala.gov.in/s'', snippet = [],
        source_query = ''Kerala OBC scholarship government''\<rparr>]"
    by simp
  from spec [OF spec [OF ord, of 0], of 1]
  have lt: "first_pos ''https://scholarships.gov.in/x'' stub_trace <
              first_pos ''https://kerala.gov.in/s'' stub_trace"
    by (simp add: out)
  have pos: "first_pos ''https://scholarships.gov.in/x'' stub_trace = 0"
    "first_pos ''https://kerala.gov.in/s'' stub_trace = 4"
    by (simp_all add: first_pos_def stub_trace_def row_url_def dict_get_def)
  from stub_rows stub_run lt pos show ?thesis
    by (intro conjI)
qed

subsection \<open>Rows without title or body\<close>

text \<open>
  C10, as stated, fails: a row with an allowed, non-empty URL and neither title nor
  body is left out when an earlier row of the run has the same URL. Here the second
  row of the first answer is such a row, and the output has no entry for it.
\<close>

theorem missing_fields_row_dropped:
  "provider_rows dup_provider 10 () (build_queries kerala_obc) =
     (Inr [(''Kerala student scholarship government'',
             [''href'' \<mapsto> ''https://scholarships.gov.in/x'', ''title'' \<mapsto> ''A'',
              ''body'' \<mapsto> ''b'']),
           (''Kerala student scholarship government'',
             [''href'' \<mapsto> ''https://scholarships.gov.in/x''])],
      ()) \<and>
   [''href'' \<mapsto> ''https://scholarships.gov.in/x''] ''title'' = None \<and>
   [''href'' \<mapsto> ''https://scholarships.gov.in/x''] ''body'' = None \<and>
   row_url [''href'' \<mapsto> ''https://scholarships.gov.in/x''] = ''https://scholarships.gov.in/x'' \<and>
   ''https://scholarships.gov.in/x'' \<noteq> [] \<and>
   allowed ''https://scholarships.gov.in/x'' \<and>
   duckduckgo_scheme_search dup_provider kerala_obc 10 () =
     (Inr [\<lparr>title = ''A'', url = ''https://scholarships.gov.in/x'', snippet = ''b'',
             source_query = ''Kerala student scholarship government''\<rparr>],
      ()) \<and>
   mk_result ''Kerala student scholarship government''
       [''href'' \<mapsto> ''https://scholarships.gov.in/x''] =
     \<lparr>title = [], url = ''https://scholarships.gov.in/x'', snippet = [],
      source_query = ''Kerala student scholarship government''\<rparr> \<and>
   mk_result ''Kerala student scholarship government''
       [''href'' \<mapsto> ''https://scholarships.gov.in/x''] \<notin>
     set [\<lparr>title = ''A'', url = ''https://scholarships.gov.in/x'', snippet = ''b'',
            source_query = ''Kerala student scholarship government''\<rparr>]"
proof -
  have "allowed ''https://scholarships.gov.in/x''"
    by (simp add: allowed_def ALLOWED_DOMAINS_def)
  then show ?thesis
    using dup_rows dup_run by (simp add: row_url_def dict_get_def mk_result_def)
qed

text \<open>
  C10, amended. A row with an allowed, non-empty URL that no earlier row of the run
  carries is in the output whether or not it has a title and a body: its entry has the
  row's title and body where they are present and the empty string where they are not.
\<close>

theorem missing_fields_default:
  assumes "provider_rows text m s (build_queries user) = (Inr tr, s')"
    and "find (\<lambda>p. row_url (snd p) = row_url r) tr = Some (q, r)"
    and "row_url r \<noteq> []" and "allowed (row_url r)"
  shows "\<exists>out. duckduckgo_scheme_search text user m s = (Inr out, s') \<and>
           \<lparr>title = (case r ''title'' of None \<Rightarrow> [] | Some t \<Rightarrow> t),
            url = row_url r,
            snippet = (case r ''body'' of None \<Rightarrow> [] | Some b \<Rightarrow> b),
            source_query = q\<rparr> \<in> set out"
proof -
  have "(q, r) \<in> set (first_rows tr)"
    using assms(2-4) by (simp add: first_rows_find kept_def)
  then have "entry (q, r) \<in> set (map entry (first_rows tr))"
    by simp
  moreover have "entry (q, r) =
      \<lparr>title = (case r ''title'' of None \<Rightarrow> [] | Some t \<Rightarrow> t),
       url = row_url r,
       snippet = (case r ''body'' of None \<Rightarrow> [] | Some b \<Rightarrow> b),
       source_query = q\<rparr>"
    by (simp add: entry_def mk_result_def row_url_def dict_get_def)
  ultimately show ?thesis
    using search_rows [OF assms(1)] by simp
qed

theorem missing_fields_default_witness:
  "provider_rows stub_provider 10 0 (build_queries kerala_obc) = (Inr stub_trace, 4) \<and>
   find (\<lambda>p. row_url (snd p) = row_url [''href'' \<mapsto> ''https://kerala.gov.in/s'']) stub_trace =
     Some (''Kerala OBC scholarship government'', [''href'' \<mapsto> ''https://kerala.gov.in/s'']) \<and>
   row_url [''href'' \<mapsto> ''https://kerala.gov.in/s''] \<noteq> [] \<and>
   allowed (row_url [''href'' \<mapsto> ''https://kerala.gov.in/s'']) \<and>
   [''href'' \<mapsto> ''https://kerala.gov.in/s''] ''title'' = None \<and>
   [''href'' \<mapsto> ''https://kerala.gov.in/s''] ''body'' = None \<and>
   (\<exists>out. duckduckgo_scheme_search stub_provider kerala_obc 10 0 = (Inr out, 4) \<and>
      \<lparr>title = [], url = ''https://kerala.gov.in/s'', snippet = [],
       source_query = ''Kerala OBC scholarship government''\<rparr> \<in> set out)"
proof -
  let ?r = "[''href'' \<mapsto> ''https://kerala.gov.in/s''] :: row"
  have u: "row_url ?r = ''https://kerala.gov.in/s''"
    by (simp add: row_url_def dict_get_def)
  have a: "find (\<lambda>p. row_url (snd p) = row_url ?r) stub_trace =
             Some (''Kerala OBC scholarship government'', ?r)"
    by (simp add: stub_trace_def row_url_def dict_get_def)
  have b: "row_url ?r \<noteq> []"
    by (simp add: u)
  have c: "allowed (row_url ?r)"
    by (simp add: u allowed_def ALLOWED_DOMAINS_def)
  have d: "?r ''title'' = None" "?r ''body'' = None"
    by simp_all
  from missing_fields_default [OF stub_rows a b c]
  have "\<exists>out. duckduckgo_scheme_search stub_provider kerala_obc 10 0 = (Inr out, 4) \<and>
      \<lparr>title = [], url = ''https://kerala.gov.in/s'', snippet = [],
       source_query = ''Kerala OBC scholarship government''\<rparr> \<in> set out"
    by (simp add: u)
  with stub_rows a b c d show ?thesis
    by (intro conjI)
qed

end
